theory Spec2Isabelle
  imports Complex_Main
begin

section \<open>Layers and requests\<close>

text \<open>
  The layers of a message (the tokens of the specification).  Only \<open>RawText\<close> and
  \<open>QuickReply\<close> are read by the triggers; the others appear in outgoing stacks.
\<close>

datatype layer =
    RawText string
  | QuickReply string
  | Text string
  | QuickRepliesList "(string \<times> string) list"
  | Postback string

datatype error = KeyError | TypeError | AttributeError | UnacceptableStack

text \<open>
  A layer class is modelled by its projection: it yields the payload of a layer of that
  class and \<open>None\<close> on a layer of any other class.
\<close>

fun RawText_cls :: "layer \<Rightarrow> string option" where
  "RawText_cls (RawText t) = Some t"
| "RawText_cls _ = None"

fun QuickReply_cls :: "layer \<Rightarrow> string option" where
  "QuickReply_cls (QuickReply s) = Some s"
| "QuickReply_cls _ = None"

text \<open>
  The metadata of one choice is a Python dict whose values are a string or \<open>None\<close>;
  the pending choices are a dict from slug to metadata, iterated in insertion order.
\<close>

type_synonym params = "string \<rightharpoonup> string option"

type_synonym choices = "(string \<times> params) list"

record request =
  layers :: "layer list"
  trans_reg :: "string \<rightharpoonup> choices"

text \<open>
  Modelled from the spec: \<open>Request.has_layer\<close>, \<open>Request.get_layer\<close> and
  \<open>Request.get_trans_reg\<close> live in \<open>bernard.engine.request\<close> and \<open>bernard.layers\<close>,
  which are not part of the sources at hand.  The token sequence is the ordered list of
  layers; \<open>get_layer\<close> yields the first layer of the class and raises \<open>KeyError\<close> when
  there is none (as the \<open>except KeyError\<close> around \<open>stack.get_layer\<close> in
  \<open>Facebook._send_text\<close> shows); the transition register is a key-value store and a
  missing key reads as \<open>None\<close>.
\<close>

definition has_layer :: "request \<Rightarrow> (layer \<Rightarrow> 'a option) \<Rightarrow> bool" where
  "has_layer r cls = list_ex (\<lambda>l. cls l \<noteq> None) (layers r)"

definition get_layer :: "request \<Rightarrow> (layer \<Rightarrow> 'a option) \<Rightarrow> error + 'a" where
  "get_layer r cls =
     (case List.map_filter cls (layers r) of
        [] \<Rightarrow> Inl KeyError
      | x # _ \<Rightarrow> Inr x)"

definition get_trans_reg :: "request \<Rightarrow> string \<Rightarrow> choices option" where
  "get_trans_reg r k = trans_reg r k"

text \<open>Subscription of a Python dict: a missing key raises \<open>KeyError\<close>.\<close>

definition subscript :: "('k \<rightharpoonup> 'v) \<Rightarrow> 'k \<Rightarrow> error + 'v" where
  "subscript d k = (case d k of None \<Rightarrow> Inl KeyError | Some v \<Rightarrow> Inr v)"

section \<open>Collaborators of the triggers\<close>

text \<open>
  The trigram matcher, the intents database and the renderer are imported by
  \<open>triggers.py\<close> from modules that are not part of the sources at hand; the triggers are
  modelled over any such collaborators.
  \<^item> \<open>best_match q strings\<close> is \<open>Matcher([Trigram(x) for x in strings]) % Trigram(q)\<close>;
  \<^item> \<open>intent_strings i r\<close> is \<open>intent.strings(request)\<close> for the intent of key \<open>i\<close>;
  \<^item> \<open>render t r\<close> is \<open>render(t, request)\<close>.
  Scores are Python floats; the triggers only compare them and return them, so they are
  modelled as reals.
\<close>

record collab =
  best_match :: "string \<Rightarrow> string list \<Rightarrow> real"
  intent_strings :: "string \<Rightarrow> request \<Rightarrow> string list"
  render :: "string \<Rightarrow> request \<Rightarrow> string"

section \<open>The Text trigger\<close>

definition Text_rank :: "collab \<Rightarrow> request \<Rightarrow> string \<Rightarrow> error + real option" where
  "Text_rank env r intent =
     (if \<not> has_layer r RawText_cls then Inr None
      else case get_layer r RawText_cls of
             Inl e \<Rightarrow> Inl e
           | Inr txt \<Rightarrow> Inr (Some (best_match env txt (intent_strings env intent r))))"

section \<open>The Choice trigger\<close>

text \<open>
  The state of a \<open>Choice\<close> instance: \<open>whn\<close> is the attribute \<open>when\<close>, and
  \<open>Choice_init\<close> is the state the constructor leaves.
\<close>

record choice_trigger =
  whn :: "string option"
  slug :: "string option"
  chosen :: "params option"

definition Choice_init :: "string option \<Rightarrow> choice_trigger" where
  "Choice_init w = \<lparr>whn = w, slug = None, chosen = None\<rparr>"

text \<open>
  \<open>_rank_qr\<close>: both the lookup of the layer and the lookup of the slug are inside the
  \<open>try\<close>, whose handler swallows \<open>KeyError\<close>; the method then returns \<open>None\<close>.
  \<open>chosen\<close> is assigned by the statement that looks the slug up, so nothing is written
  when the lookup raises.
\<close>

definition rank_qr ::
  "request \<Rightarrow> choice_trigger \<Rightarrow> choices \<Rightarrow> (error + real option) \<times> choice_trigger" where
  "rank_qr r t choices =
     (case get_layer r QuickReply_cls of
        Inl e \<Rightarrow> (if e = KeyError then (Inr None, t) else (Inl e, t))
      | Inr qr \<Rightarrow>
          (case subscript (map_of choices) qr of
             Inl e \<Rightarrow> (if e = KeyError then (Inr None, t) else (Inl e, t))
           | Inr ps \<Rightarrow>
               (let t' = t\<lparr>chosen := Some ps, slug := Some qr\<rparr>
                in if whn t' = None \<or> whn t' = Some qr
                   then (Inr (Some 1), t') else (Inr None, t'))))"

text \<open>Python truthiness of a value that is a string or \<open>None\<close>.\<close>

fun truthy :: "string option \<Rightarrow> bool" where
  "truthy None = False"
| "truthy (Some s) = (s \<noteq> [])"

text \<open>The candidate strings of one choice, as the body of the loop of \<open>_rank_text\<close> builds them.\<close>

definition choice_strings :: "collab \<Rightarrow> request \<Rightarrow> params \<Rightarrow> error + string list" where
  "choice_strings env r ps =
     (case subscript ps ''intent'' of
        Inl e \<Rightarrow> Inl e
      | Inr i \<Rightarrow>
          (let strings = (case i of Some k \<Rightarrow> (if truthy i then intent_strings env k r else [])
                                  | None \<Rightarrow> [])
           in case subscript ps ''text'' of
                Inl e \<Rightarrow> Inl e
              | Inr tx \<Rightarrow>
                  (case tx of Some s \<Rightarrow> Inr (if truthy tx then strings @ [s] else strings)
                            | None \<Rightarrow> Inr strings)))"

text \<open>
  The loop of \<open>_rank_text\<close> over \<open>choices.items()\<close>, threading \<open>best\<close> and the trigger.
  An exception leaves the loop with the trigger as it is at that point.
\<close>

fun rank_text_loop ::
  "collab \<Rightarrow> request \<Rightarrow> string \<Rightarrow> choices \<Rightarrow> real \<Rightarrow> choice_trigger
     \<Rightarrow> (error + real) \<times> choice_trigger" where
  "rank_text_loop env r txt [] best t = (Inr best, t)"
| "rank_text_loop env r txt ((sl, ps) # rest) best t =
     (case choice_strings env r ps of
        Inl e \<Rightarrow> (Inl e, t)
      | Inr strings \<Rightarrow>
          (let score = best_match env (render env txt r) strings
           in if score > best
              then rank_text_loop env r txt rest score (t\<lparr>chosen := Some ps, slug := Some sl\<rparr>)
              else rank_text_loop env r txt rest best t))"

definition rank_text ::
  "collab \<Rightarrow> request \<Rightarrow> choice_trigger \<Rightarrow> choices \<Rightarrow> (error + real option) \<times> choice_trigger" where
  "rank_text env r t choices =
     (case get_layer r RawText_cls of
        Inl e \<Rightarrow> (Inl e, t)
      | Inr txt \<Rightarrow>
          (case rank_text_loop env r txt choices 0 t of
             (Inl e, t') \<Rightarrow> (Inl e, t')
           | (Inr best, t') \<Rightarrow>
               (if whn t' = None \<or> slug t' = whn t'
                then (Inr (Some best), t') else (Inr None, t'))))"

definition Choice_rank ::
  "collab \<Rightarrow> request \<Rightarrow> choice_trigger \<Rightarrow> (error + real option) \<times> choice_trigger" where
  "Choice_rank env r t =
     (case get_trans_reg r ''choices'' of
        None \<Rightarrow> (Inr None, t)
      | Some choices \<Rightarrow>
          (if choices = [] then (Inr None, t)
           else if has_layer r QuickReply_cls then rank_qr r t choices
           else if has_layer r RawText_cls then rank_text env r t choices
           else (Inr None, t)))"

section \<open>The Facebook platform\<close>

record stack =
  stack_layers :: "layer list"
  annotation :: "string option"

text \<open>
  A platform object, as far as \<open>accept\<close> and \<open>send\<close> read it: the \<open>PATTERNS\<close> dict
  (name to expression, iterated in insertion order) and the names of its attributes that
  start with \<open>_send_\<close>.
\<close>

record platform =
  PATTERNS :: "(string \<times> string) list"
  send_attrs :: "string list"

definition Facebook :: platform where
  "Facebook = \<lparr>PATTERNS = [(''text'', ''(Text|RawText)+ QuickRepliesList?'')],
               send_attrs = [''_send_text'']\<rparr>"

text \<open>
  \<open>Stack.match_exp\<close> belongs to \<open>bernard.layers\<close>, which is not part of the sources at
  hand: \<open>accept\<close> and \<open>send\<close> take it as the parameter \<open>match_exp\<close>.
\<close>

fun accept_loop ::
  "(stack \<Rightarrow> string \<Rightarrow> bool) \<Rightarrow> (string \<times> string) list \<Rightarrow> stack \<Rightarrow> bool \<times> stack" where
  "accept_loop match_exp [] st = (False, st)"
| "accept_loop match_exp ((name, pattern) # rest) st =
     (if match_exp st pattern then (True, st\<lparr>annotation := Some name\<rparr>)
      else accept_loop match_exp rest st)"

definition accept :: "platform \<Rightarrow> (stack \<Rightarrow> string \<Rightarrow> bool) \<Rightarrow> stack \<Rightarrow> bool \<times> stack" where
  "accept pf match_exp st = accept_loop match_exp (PATTERNS pf) st"

text \<open>\<open>annotation in self.PATTERNS\<close>: the annotation is a key of the dict.\<close>

definition in_PATTERNS :: "platform \<Rightarrow> string option \<Rightarrow> bool" where
  "in_PATTERNS pf a = (case a of None \<Rightarrow> False | Some n \<Rightarrow> n \<in> set (map fst (PATTERNS pf)))"

definition getattr :: "platform \<Rightarrow> string \<Rightarrow> error + string" where
  "getattr pf name = (if name \<in> set (send_attrs pf) then Inr name else Inl AttributeError)"

text \<open>
  \<open>send\<close> returns the call of the handler it looked up: the name of the handler and
  the stack passed to it.
\<close>

definition send ::
  "platform \<Rightarrow> (stack \<Rightarrow> string \<Rightarrow> bool) \<Rightarrow> stack \<Rightarrow> error + string \<times> stack" where
  "send pf match_exp st =
     (let (ok, st') = (if \<not> in_PATTERNS pf (annotation st) then accept pf match_exp st
                       else (True, st))
      in if \<not> ok then Inl UnacceptableStack
         else (case annotation st' of
                 None \<Rightarrow> Inl TypeError
               | Some a \<Rightarrow>
                   (case getattr pf (''_send_'' @ a) of
                      Inl e \<Rightarrow> Inl e
                    | Inr func \<Rightarrow> Inr (func, st'))))"

section \<open>The ranking of choices, as specified\<close>

text \<open>
  The definitions of this section follow the wording of the specification, for
  comparison with \<open>rank_text\<close>.  A choice carries both keys when \<open>has_keys\<close> holds.
  Its candidate list is made of its intent strings plus its literal text, where an
  intent or a text that is \<open>None\<close> or empty counts as not present.  Its score is
  \<open>best_match\<close> of the rendered raw text against the candidate list.
\<close>

definition has_keys :: "params \<Rightarrow> bool" where
  "has_keys ps = (ps ''intent'' \<noteq> None \<and> ps ''text'' \<noteq> None)"

definition candidates :: "collab \<Rightarrow> request \<Rightarrow> params \<Rightarrow> string list" where
  "candidates env r ps =
     (case ps ''intent'' of
        Some (Some i) \<Rightarrow> (if i \<noteq> [] then intent_strings env i r else [])
      | _ \<Rightarrow> [])
     @ (case ps ''text'' of
          Some (Some s) \<Rightarrow> (if s \<noteq> [] then [s] else [])
        | _ \<Rightarrow> [])"

definition choice_score :: "collab \<Rightarrow> request \<Rightarrow> string \<Rightarrow> string \<times> params \<Rightarrow> real" where
  "choice_score env r txt c = best_match env (render env txt r) (candidates env r (snd c))"

text \<open>
  The highest score over all choices, and the first choice (in the order of the mapping)
  that reaches it.
\<close>

definition top_score :: "collab \<Rightarrow> request \<Rightarrow> string \<Rightarrow> choices \<Rightarrow> real" where
  "top_score env r txt cs = Max (set (map (choice_score env r txt) cs))"

definition top_choice :: "collab \<Rightarrow> request \<Rightarrow> string \<Rightarrow> choices \<Rightarrow> (string \<times> params) option" where
  "top_choice env r txt cs = find (\<lambda>c. choice_score env r txt c = top_score env r txt cs) cs"

text \<open>
  The rank of the raw-text branch read literally: the choice with the highest score wins
  whatever that score is, and the highest score is returned when \<open>when\<close> is unset or
  equal to the winning slug.
\<close>

definition claimed_rank_text ::
  "collab \<Rightarrow> request \<Rightarrow> string \<Rightarrow> choices \<Rightarrow> string option \<Rightarrow> real option" where
  "claimed_rank_text env r txt cs w =
     (case top_choice env r txt cs of
        None \<Rightarrow> None
      | Some (sl, ps) \<Rightarrow>
          (if w = None \<or> w = Some sl then Some (top_score env r txt cs) else None))"

section \<open>Concrete collaborators and inputs\<close>

text \<open>
  A small matcher (1 for a candidate equal to the query, one half for a candidate with
  the same first character, 0 otherwise), one intent, the identity renderer, some
  pending choices, and a matcher of stacks that knows the one expression of the Facebook
  platform.  They instantiate the theorems below at concrete inputs.
\<close>

definition demo_collab :: collab where
  "demo_collab =
     \<lparr>best_match = (\<lambda>q strings. if q \<in> set strings then 1
                                 else if list_ex (\<lambda>c. take 1 c = take 1 q) strings then 1 / 2
                                 else 0),
      intent_strings = (\<lambda>i r. if i = ''HELLO'' then [''hello'', ''hi''] else []),
      render = (\<lambda>t r. t)\<rparr>"

definition yes_no :: choices where
  "yes_no = [(''yes'', [''intent'' \<mapsto> None, ''text'' \<mapsto> Some ''yes'']),
             (''no'', [''intent'' \<mapsto> None, ''text'' \<mapsto> Some ''no''])]"

definition only_yes :: choices where
  "only_yes = [(''yes'', [''intent'' \<mapsto> None, ''text'' \<mapsto> Some ''yes''])]"

definition no_intent_key :: choices where
  "no_intent_key = [(''yes'', [''intent'' \<mapsto> None, ''text'' \<mapsto> Some ''yes'']),
                    (''no'', [''text'' \<mapsto> Some ''no''])]"

fun is_text_layer :: "layer \<Rightarrow> bool" where
  "is_text_layer (Text _) = True"
| "is_text_layer (RawText _) = True"
| "is_text_layer _ = False"

definition text_shape :: "stack \<Rightarrow> string \<Rightarrow> bool" where
  "text_shape st p =
     (p = ''(Text|RawText)+ QuickRepliesList?'' \<and>
      takeWhile is_text_layer (stack_layers st) \<noteq> [] \<and>
      (case dropWhile is_text_layer (stack_layers st) of
         [] \<Rightarrow> True
       | [QuickRepliesList _] \<Rightarrow> True
       | _ \<Rightarrow> False))"

definition two_patterns :: platform where
  "two_patterns = \<lparr>PATTERNS = [(''postback'', ''Postback''),
                                (''text'', ''(Text|RawText)+ QuickRepliesList?''),
                                (''any'', ''(Text|RawText)+ QuickRepliesList?'')],
                   send_attrs = [''_send_postback'', ''_send_text'', ''_send_any'']\<rparr>"

section \<open>Facts about layers\<close>

lemma RawText_cls_None: "(RawText_cls x = None) \<longleftrightarrow> (\<forall>t. x \<noteq> RawText t)"
  by (cases x) auto

lemma QuickReply_cls_None: "(QuickReply_cls x = None) \<longleftrightarrow> (\<forall>t. x \<noteq> QuickReply t)"
  by (cases x) auto

lemma has_layer_RawText: "has_layer r RawText_cls \<longleftrightarrow> (\<exists>t. RawText t \<in> set (layers r))"
proof
  assume "has_layer r RawText_cls"
  then obtain l where l: "l \<in> set (layers r)" "RawText_cls l \<noteq> None"
    by (auto simp: has_layer_def list_ex_iff)
  then show "\<exists>t. RawText t \<in> set (layers r)"
    by (auto simp: RawText_cls_None)
next
  assume "\<exists>t. RawText t \<in> set (layers r)"
  then obtain t where "RawText t \<in> set (layers r)" ..
  moreover have "RawText_cls (RawText t) \<noteq> None" by simp
  ultimately show "has_layer r RawText_cls"
    unfolding has_layer_def list_ex_iff by blast
qed

lemma has_layer_QuickReply: "has_layer r QuickReply_cls \<longleftrightarrow> (\<exists>s. QuickReply s \<in> set (layers r))"
proof
  assume "has_layer r QuickReply_cls"
  then obtain l where l: "l \<in> set (layers r)" "QuickReply_cls l \<noteq> None"
    by (auto simp: has_layer_def list_ex_iff)
  then show "\<exists>s. QuickReply s \<in> set (layers r)"
    by (auto simp: QuickReply_cls_None)
next
  assume "\<exists>s. QuickReply s \<in> set (layers r)"
  then obtain s where "QuickReply s \<in> set (layers r)" ..
  moreover have "QuickReply_cls (QuickReply s) \<noteq> None" by simp
  ultimately show "has_layer r QuickReply_cls"
    unfolding has_layer_def list_ex_iff by blast
qed

lemma map_filter_none: "(\<forall>x\<in>set xs. f x = None) \<Longrightarrow> List.map_filter f xs = []"
  by (induction xs) (auto simp: List.map_filter_simps)

lemma map_filter_app: "List.map_filter f (xs @ ys) = List.map_filter f xs @ List.map_filter f ys"
  by (simp add: List.map_filter_def)

lemma get_layer_first:
  "layers r = pre @ l # post \<Longrightarrow> (\<forall>x\<in>set pre. cls x = None) \<Longrightarrow> cls l = Some v
     \<Longrightarrow> get_layer r cls = Inr v"
  by (simp add: get_layer_def map_filter_app map_filter_none List.map_filter_simps)

lemma get_layer_has: "has_layer r cls \<Longrightarrow> \<exists>v. get_layer r cls = Inr v"
proof -
  assume "has_layer r cls"
  then have "filter (\<lambda>l. cls l \<noteq> None) (layers r) \<noteq> []"
    by (auto simp: has_layer_def list_ex_iff filter_empty_conv)
  then have "List.map_filter cls (layers r) \<noteq> []"
    by (simp add: List.map_filter_def)
  then show ?thesis
    by (cases "List.map_filter cls (layers r)") (simp_all add: get_layer_def)
qed

section \<open>Facts about the loops\<close>

lemma accept_loop_False: "accept_loop m pats st = (False, st') \<Longrightarrow> st' = st"
  by (induction pats) (auto split: if_splits)

lemma accept_loop_none: "(\<forall>(n, p)\<in>set pats. \<not> m st p) \<Longrightarrow> accept_loop m pats st = (False, st)"
  by (induction pats) auto

lemma accept_loop_first:
  "(\<forall>(n', p')\<in>set pre. \<not> m st p') \<Longrightarrow> m st p
    \<Longrightarrow> accept_loop m (pre @ (n, p) # post) st = (True, st\<lparr>annotation := Some n\<rparr>)"
  by (induction pre) auto

lemma has_keys_dom: "has_keys ps \<longleftrightarrow> ''intent'' \<in> dom ps \<and> ''text'' \<in> dom ps"
  by (auto simp: has_keys_def)

lemma choice_strings_ok: "has_keys ps \<Longrightarrow> choice_strings env r ps = Inr (candidates env r ps)"
  by (auto simp: has_keys_def choice_strings_def candidates_def subscript_def
      split: option.splits)

lemma choice_strings_KeyError: "\<not> has_keys ps \<Longrightarrow> choice_strings env r ps = Inl KeyError"
  by (auto simp: has_keys_def choice_strings_def candidates_def subscript_def
      split: option.splits)

lemma loop_total:
  "\<forall>c\<in>set cs. has_keys (snd c) \<Longrightarrow> \<exists>b t'. rank_text_loop env r txt cs best t = (Inr b, t')"
  by (induction cs arbitrary: best t) (auto simp: choice_strings_ok Let_def)

lemma loop_KeyError:
  "\<exists>c\<in>set cs. \<not> has_keys (snd c) \<Longrightarrow> fst (rank_text_loop env r txt cs best t) = Inl KeyError"
proof (induction cs arbitrary: best t)
  case Nil
  then show ?case by simp
next
  case (Cons c cs)
  obtain sl ps where c: "c = (sl, ps)" by (cases c)
  show ?case
  proof (cases "has_keys ps")
    case True
    with Cons.prems c have "\<exists>c\<in>set cs. \<not> has_keys (snd c)" by auto
    then show ?thesis
      using Cons.IH c True by (simp add: choice_strings_ok Let_def)
  next
    case False
    then show ?thesis using c by (simp add: choice_strings_KeyError)
  qed
qed

lemma top_score_Cons:
  "cs \<noteq> [] \<Longrightarrow> top_score env r txt (c # cs) = max (choice_score env r txt c) (top_score env r txt cs)"
  by (simp add: top_score_def)

lemma top_choice_Some: "cs \<noteq> [] \<Longrightarrow> \<exists>c. top_choice env r txt cs = Some c"
proof -
  assume "cs \<noteq> []"
  then have "top_score env r txt cs \<in> set (map (choice_score env r txt) cs)"
    unfolding top_score_def by (intro Max_in) auto
  then obtain c where "c \<in> set cs" "choice_score env r txt c = top_score env r txt cs"
    by auto
  then have "find (\<lambda>c. choice_score env r txt c = top_score env r txt cs) cs \<noteq> None"
    unfolding find_None_iff by blast
  then show ?thesis by (auto simp: top_choice_def)
qed

lemma loop_result:
  assumes "\<forall>c\<in>set cs. has_keys (snd c)"
  shows "rank_text_loop env r txt cs best t =
    (if cs = [] \<or> top_score env r txt cs \<le> best then (Inr best, t)
     else (Inr (top_score env r txt cs),
           t\<lparr>chosen := Some (snd (the (top_choice env r txt cs))),
              slug := Some (fst (the (top_choice env r txt cs)))\<rparr>))"
  using assms
proof (induction cs arbitrary: best t)
  case Nil
  then show ?case by simp
next
  case (Cons c cs)
  obtain sl ps where c: "c = (sl, ps)" by (cases c)
  have k: "has_keys ps" and ks: "\<forall>c\<in>set cs. has_keys (snd c)"
    using Cons.prems c by auto
  define x where "x = choice_score env r txt c"
  define M where "M = top_score env r txt cs"
  define t1 where "t1 = t\<lparr>chosen := Some ps, slug := Some sl\<rparr>"
  have step: "rank_text_loop env r txt (c # cs) best t =
      (if x > best then rank_text_loop env r txt cs x t1 else rank_text_loop env r txt cs best t)"
    using k by (simp add: c choice_strings_ok Let_def x_def t1_def choice_score_def)
  note IH = Cons.IH [OF ks, folded M_def]
  show ?case
  proof (cases "cs = []")
    case True
    have "top_score env r txt [c] = x" by (simp add: top_score_def x_def)
    moreover have "top_choice env r txt [c] = Some c"
      by (simp add: top_choice_def top_score_def)
    ultimately show ?thesis
      using True step by (simp add: t1_def c)
  next
    case False
    have top: "top_score env r txt (c # cs) = max x M"
      using False by (simp add: top_score_Cons x_def M_def)
    have pick: "top_choice env r txt (c # cs) =
                  (if x = max x M then Some c else top_choice env r txt cs)"
      using False by (simp add: top_choice_def top_score_Cons x_def M_def)
    have pick_rest: "x < M \<Longrightarrow> top_choice env r txt (c # cs) = top_choice env r txt cs"
      using False by (simp add: top_choice_def top_score_Cons x_def M_def max_def)
    consider (A1) "x > best" "M \<le> x" | (A2) "x > best" "M > x"
      | (B1) "x \<le> best" "M \<le> best" | (B2) "x \<le> best" "M > best"
      by linarith
    then show ?thesis
    proof cases
      case A1
      then have "rank_text_loop env r txt (c # cs) best t = (Inr x, t1)"
        using step IH [of x t1] by simp
      moreover have "max x M = x" using A1 by simp
      ultimately show ?thesis
        using A1 top pick by (simp add: t1_def c)
    next
      case A2
      then have "rank_text_loop env r txt (c # cs) best t =
          (Inr M, t1\<lparr>chosen := Some (snd (the (top_choice env r txt cs))),
                     slug := Some (fst (the (top_choice env r txt cs)))\<rparr>)"
        using step IH [of x t1] False by simp
      moreover have "max x M = M" using A2 by simp
      ultimately show ?thesis
        using A2 top pick_rest by (simp add: t1_def)
    next
      case B1
      then have "rank_text_loop env r txt (c # cs) best t = (Inr best, t)"
        using step IH [of best t] by simp
      moreover have "max x M \<le> best" using B1 by simp
      ultimately show ?thesis
        using top by simp
    next
      case B2
      then have "rank_text_loop env r txt (c # cs) best t =
          (Inr M, t\<lparr>chosen := Some (snd (the (top_choice env r txt cs))),
                    slug := Some (fst (the (top_choice env r txt cs)))\<rparr>)"
        using step IH [of best t] False by simp
      moreover have "max x M = M" "x < M" using B2 by simp_all
      ultimately show ?thesis
        using B2 top pick_rest by simp
    qed
  qed
qed

section \<open>The Choice trigger on a quick reply\<close>

text \<open>
  C1: let the request carry a quick-reply layer (the first one has slug \<open>s\<close>) and let
  the pending choices read from the transition register be non-empty with \<open>s\<close> among
  their keys.  Then \<open>Choice.rank\<close> returns 1.0 when \<open>when\<close> is unset or equal to
  \<open>s\<close> and \<open>None\<close> (no opinion) when \<open>when\<close> is another slug, and it stages the
  slug and its metadata on the trigger.  Nothing is assumed about raw-text layers: the
  quick-reply branch is taken whether or not one is present.
\<close>

theorem quick_reply_choice:
  assumes "layers r = pre @ QuickReply s # post" and "\<forall>q. QuickReply q \<notin> set pre"
    and "trans_reg r ''choices'' = Some cs" and "cs \<noteq> []"
    and "map_of cs s = Some ps"
  shows "Choice_rank env r t =
           (Inr (if whn t = None \<or> whn t = Some s then Some 1 else None),
            t\<lparr>chosen := Some ps, slug := Some s\<rparr>)"
proof -
  have g: "get_layer r QuickReply_cls = Inr s"
    using assms(1,2)
    by (intro get_layer_first [where pre = pre and post = post and l = "QuickReply s"])
       (auto simp: QuickReply_cls_None)
  have h: "has_layer r QuickReply_cls"
    using assms(1) by (auto simp: has_layer_QuickReply)
  show ?thesis
    using assms(3,4,5) g h
    by (simp add: Choice_rank_def get_trans_reg_def rank_qr_def subscript_def Let_def)
qed

theorem quick_reply_choice_witness:
  "Choice_rank demo_collab
     \<lparr>layers = [RawText ''yes'', QuickReply ''no''], trans_reg = [''choices'' \<mapsto> yes_no]\<rparr>
     (Choice_init None)
     = (Inr (Some 1), \<lparr>whn = None, slug = Some ''no'',
          chosen = Some [''intent'' \<mapsto> None, ''text'' \<mapsto> Some ''no'']\<rparr>)
   \<and> Choice_rank demo_collab
     \<lparr>layers = [RawText ''yes'', QuickReply ''no''], trans_reg = [''choices'' \<mapsto> yes_no]\<rparr>
     (Choice_init (Some ''no''))
     = (Inr (Some 1), \<lparr>whn = Some ''no'', slug = Some ''no'',
          chosen = Some [''intent'' \<mapsto> None, ''text'' \<mapsto> Some ''no'']\<rparr>)
   \<and> Choice_rank demo_collab
     \<lparr>layers = [RawText ''yes'', QuickReply ''no''], trans_reg = [''choices'' \<mapsto> yes_no]\<rparr>
     (Choice_init (Some ''yes''))
     = (Inr None, \<lparr>whn = Some ''yes'', slug = Some ''no'',
          chosen = Some [''intent'' \<mapsto> None, ''text'' \<mapsto> Some ''no'']\<rparr>)"
  using quick_reply_choice [of "\<lparr>layers = [RawText ''yes'', QuickReply ''no''],
        trans_reg = [''choices'' \<mapsto> yes_no]\<rparr>" "[RawText ''yes'']" "''no''" "[]" yes_no
        "[''intent'' \<mapsto> None, ''text'' \<mapsto> Some ''no'']" demo_collab "Choice_init None"]
    quick_reply_choice [of "\<lparr>layers = [RawText ''yes'', QuickReply ''no''],
        trans_reg = [''choices'' \<mapsto> yes_no]\<rparr>" "[RawText ''yes'']" "''no''" "[]" yes_no
        "[''intent'' \<mapsto> None, ''text'' \<mapsto> Some ''no'']" demo_collab "Choice_init (Some ''no'')"]
    quick_reply_choice [of "\<lparr>layers = [RawText ''yes'', QuickReply ''no''],
        trans_reg = [''choices'' \<mapsto> yes_no]\<rparr>" "[RawText ''yes'']" "''no''" "[]" yes_no
        "[''intent'' \<mapsto> None, ''text'' \<mapsto> Some ''no'']" demo_collab "Choice_init (Some ''yes'')"]
  by (simp add: yes_no_def Choice_init_def)

text \<open>
  C8: when the slug of the quick reply is not a key of the non-empty pending choices,
  \<open>Choice.rank\<close> returns \<open>None\<close> and leaves the trigger untouched; the raw-text
  matching is not tried, whatever raw-text layers the request carries.
\<close>

theorem quick_reply_unknown_slug:
  assumes "layers r = pre @ QuickReply s # post" and "\<forall>q. QuickReply q \<notin> set pre"
    and "trans_reg r ''choices'' = Some cs" and "cs \<noteq> []"
    and "s \<notin> fst ` set cs"
  shows "Choice_rank env r t = (Inr None, t)"
proof -
  have g: "get_layer r QuickReply_cls = Inr s"
    using assms(1,2)
    by (intro get_layer_first [where pre = pre and post = post and l = "QuickReply s"])
       (auto simp: QuickReply_cls_None)
  have h: "has_layer r QuickReply_cls"
    using assms(1) by (auto simp: has_layer_QuickReply)
  have "map_of cs s = None"
    using assms(5) by (simp add: map_of_eq_None_iff)
  then show ?thesis
    using assms(3,4) g h
    by (simp add: Choice_rank_def get_trans_reg_def rank_qr_def subscript_def)
qed

theorem quick_reply_unknown_slug_witness:
  "Choice_rank demo_collab
     \<lparr>layers = [RawText ''yes'', QuickReply ''maybe''], trans_reg = [''choices'' \<mapsto> yes_no]\<rparr>
     (Choice_init None) = (Inr None, Choice_init None)
   \<and> fst (rank_text demo_collab
     \<lparr>layers = [RawText ''yes'', QuickReply ''maybe''], trans_reg = [''choices'' \<mapsto> yes_no]\<rparr>
     (Choice_init None) yes_no) = Inr (Some 1)"
  using quick_reply_unknown_slug [of "\<lparr>layers = [RawText ''yes'', QuickReply ''maybe''],
        trans_reg = [''choices'' \<mapsto> yes_no]\<rparr>" "[RawText ''yes'']" "''maybe''" "[]" yes_no
        demo_collab "Choice_init None"]
  by (simp add: yes_no_def Choice_init_def rank_text_def get_layer_def choice_strings_def
      subscript_def demo_collab_def)

section \<open>The Choice trigger on raw text\<close>

text \<open>
  C2, as amended: let the request carry no quick-reply layer and a raw-text layer, and
  let the pending choices be non-empty, each choice with both keys.  On a fresh trigger,
  \<open>Choice.rank\<close> scores each choice by \<open>best_match\<close> of the rendered raw text against
  the candidate list of the choice.  When the highest score is above 0, the first choice
  that reaches it is kept, and the result is that score when \<open>when\<close> is unset or equal
  to the kept slug and \<open>None\<close> otherwise.  When no score is above 0, no choice is kept,
  and the result is 0.0 when \<open>when\<close> is unset and \<open>None\<close> when it is set.
\<close>

theorem rank_text_keeps_highest:
  assumes "\<forall>q. QuickReply q \<notin> set (layers r)"
    and "layers r = pre @ RawText txt # post" and "\<forall>x. RawText x \<notin> set pre"
    and "trans_reg r ''choices'' = Some cs" and "cs \<noteq> []"
    and "\<forall>(s, ps)\<in>set cs. ''intent'' \<in> dom ps \<and> ''text'' \<in> dom ps"
  shows "(0 < top_score env r txt cs \<longrightarrow>
           (\<exists>sl ps. top_choice env r txt cs = Some (sl, ps) \<and>
              Choice_rank env r (Choice_init w) =
                (Inr (if w = None \<or> w = Some sl then Some (top_score env r txt cs) else None),
                 \<lparr>whn = w, slug = Some sl, chosen = Some ps\<rparr>)))
       \<and> (top_score env r txt cs \<le> 0 \<longrightarrow>
            Choice_rank env r (Choice_init w) =
              (Inr (if w = None then Some 0 else None), Choice_init w))"
proof -
  have h: "has_layer r RawText_cls" "\<not> has_layer r QuickReply_cls"
    using assms(1,2) by (auto simp: has_layer_RawText has_layer_QuickReply)
  have g: "get_layer r RawText_cls = Inr txt"
    using assms(2,3)
    by (intro get_layer_first [where pre = pre and post = post and l = "RawText txt"])
       (auto simp: RawText_cls_None)
  have rk: "Choice_rank env r (Choice_init w) = rank_text env r (Choice_init w) cs"
    using assms(4,5) h by (simp add: Choice_rank_def get_trans_reg_def)
  have ks: "\<forall>c\<in>set cs. has_keys (snd c)"
    using assms(6) by (fastforce simp: has_keys_dom)
  note lp = loop_result [OF ks, of env r "txt" 0 "Choice_init w"]
  obtain sl ps where tc: "top_choice env r txt cs = Some (sl, ps)"
    using top_choice_Some [OF assms(5), of env r "txt"] by auto
  show ?thesis
  proof (intro conjI impI)
    assume "0 < top_score env r txt cs"
    then have "Choice_rank env r (Choice_init w) =
                (Inr (if w = None \<or> w = Some sl then Some (top_score env r txt cs) else None),
                 \<lparr>whn = w, slug = Some sl, chosen = Some ps\<rparr>)"
      unfolding rk using lp assms(5) tc by (auto simp: rank_text_def g Choice_init_def)
    with tc show "\<exists>sl ps. top_choice env r txt cs = Some (sl, ps) \<and>
              Choice_rank env r (Choice_init w) =
                (Inr (if w = None \<or> w = Some sl then Some (top_score env r txt cs) else None),
                 \<lparr>whn = w, slug = Some sl, chosen = Some ps\<rparr>)"
      by blast
  next
    assume "top_score env r txt cs \<le> 0"
    then show "Choice_rank env r (Choice_init w) =
              (Inr (if w = None then Some 0 else None), Choice_init w)"
      unfolding rk using lp by (auto simp: rank_text_def g Choice_init_def)
  qed
qed

theorem rank_text_keeps_highest_witness:
  "Choice_rank demo_collab \<lparr>layers = [RawText ''yess''], trans_reg = [''choices'' \<mapsto> yes_no]\<rparr>
       (Choice_init (Some ''yes''))
     = (Inr (Some (1 / 2)), \<lparr>whn = Some ''yes'', slug = Some ''yes'',
          chosen = Some [''intent'' \<mapsto> None, ''text'' \<mapsto> Some ''yes'']\<rparr>)
   \<and> Choice_rank demo_collab \<lparr>layers = [RawText ''yess''], trans_reg = [''choices'' \<mapsto> yes_no]\<rparr>
       (Choice_init (Some ''no''))
     = (Inr None, \<lparr>whn = Some ''no'', slug = Some ''yes'',
          chosen = Some [''intent'' \<mapsto> None, ''text'' \<mapsto> Some ''yes'']\<rparr>)
   \<and> Choice_rank demo_collab \<lparr>layers = [RawText ''zzz''], trans_reg = [''choices'' \<mapsto> yes_no]\<rparr>
       (Choice_init None)
     = (Inr (Some 0), Choice_init None)"
  using rank_text_keeps_highest [of "\<lparr>layers = [RawText ''yess''], trans_reg = [''choices'' \<mapsto> yes_no]\<rparr>"
      "[]" "''yess''" "[]" yes_no demo_collab "Some ''yes''"]
    rank_text_keeps_highest [of "\<lparr>layers = [RawText ''yess''], trans_reg = [''choices'' \<mapsto> yes_no]\<rparr>"
      "[]" "''yess''" "[]" yes_no demo_collab "Some ''no''"]
    rank_text_keeps_highest [of "\<lparr>layers = [RawText ''zzz''], trans_reg = [''choices'' \<mapsto> yes_no]\<rparr>"
      "[]" "''zzz''" "[]" yes_no demo_collab None]
  by (simp add: yes_no_def top_score_def top_choice_def choice_score_def candidates_def
      demo_collab_def)

text \<open>
  The claim C2 as it is worded fails where the highest score is 0: with the single choice
  \<open>yes\<close>, the raw text \<open>zzz\<close> and \<open>when\<close> set to \<open>yes\<close>, the choice with the highest
  score is \<open>yes\<close> and its score is 0.0, yet \<open>Choice.rank\<close> returns \<open>None\<close>.
\<close>

theorem rank_text_zero_score_counterexample:
  "claimed_rank_text demo_collab
       \<lparr>layers = [RawText ''zzz''], trans_reg = [''choices'' \<mapsto> only_yes]\<rparr> ''zzz'' only_yes
       (Some ''yes'') = Some 0
   \<and> fst (Choice_rank demo_collab
       \<lparr>layers = [RawText ''zzz''], trans_reg = [''choices'' \<mapsto> only_yes]\<rparr>
       (Choice_init (Some ''yes''))) = Inr None"
  by (simp add: claimed_rank_text_def top_choice_def top_score_def choice_score_def
      candidates_def demo_collab_def only_yes_def Choice_rank_def get_trans_reg_def has_layer_def
      rank_text_def get_layer_def choice_strings_def subscript_def Choice_init_def)

text \<open>
  C9: on the raw-text branch (no quick-reply layer, some raw-text layer, non-empty
  pending choices), \<open>Choice.rank\<close> returns a value when every choice has both the key
  \<open>intent\<close> and the key \<open>text\<close>, and raises \<open>KeyError\<close> as soon as one choice misses
  either key.
\<close>

theorem rank_text_KeyError:
  assumes "\<forall>q. QuickReply q \<notin> set (layers r)" and "\<exists>x. RawText x \<in> set (layers r)"
    and "trans_reg r ''choices'' = Some cs" and "cs \<noteq> []"
  shows "((\<forall>(s, ps)\<in>set cs. ''intent'' \<in> dom ps \<and> ''text'' \<in> dom ps)
            \<longrightarrow> (\<exists>v. fst (Choice_rank env r t) = Inr v))
       \<and> ((\<exists>(s, ps)\<in>set cs. ''intent'' \<notin> dom ps \<or> ''text'' \<notin> dom ps)
            \<longrightarrow> fst (Choice_rank env r t) = Inl KeyError)"
proof -
  have h: "has_layer r RawText_cls" "\<not> has_layer r QuickReply_cls"
    using assms(1,2) by (simp_all add: has_layer_RawText has_layer_QuickReply)
  then obtain raw where g: "get_layer r RawText_cls = Inr raw"
    using get_layer_has by blast
  have rk: "Choice_rank env r t = rank_text env r t cs"
    using assms(3,4) h by (simp add: Choice_rank_def get_trans_reg_def)
  show ?thesis
  proof (intro conjI impI)
    assume "\<forall>(s, ps)\<in>set cs. ''intent'' \<in> dom ps \<and> ''text'' \<in> dom ps"
    then have "\<forall>c\<in>set cs. has_keys (snd c)"
      by (fastforce simp: has_keys_dom)
    then obtain b t' where "rank_text_loop env r raw cs 0 t = (Inr b, t')"
      using loop_total by blast
    then show "\<exists>v. fst (Choice_rank env r t) = Inr v"
      by (simp add: rk rank_text_def g)
  next
    assume "\<exists>(s, ps)\<in>set cs. ''intent'' \<notin> dom ps \<or> ''text'' \<notin> dom ps"
    then have "\<exists>c\<in>set cs. \<not> has_keys (snd c)"
      by (fastforce simp: has_keys_dom)
    then have "fst (rank_text_loop env r raw cs 0 t) = Inl KeyError"
      by (rule loop_KeyError)
    then show "fst (Choice_rank env r t) = Inl KeyError"
      by (cases "rank_text_loop env r raw cs 0 t") (simp add: rk rank_text_def g)
  qed
qed

theorem rank_text_KeyError_witness:
  "(\<exists>v. fst (Choice_rank demo_collab
       \<lparr>layers = [RawText ''yes''], trans_reg = [''choices'' \<mapsto> yes_no]\<rparr> (Choice_init None)) = Inr v)
   \<and> fst (Choice_rank demo_collab
       \<lparr>layers = [RawText ''yes''], trans_reg = [''choices'' \<mapsto> no_intent_key]\<rparr> (Choice_init None))
      = Inl KeyError"
  using rank_text_KeyError [of "\<lparr>layers = [RawText ''yes''], trans_reg = [''choices'' \<mapsto> yes_no]\<rparr>"
      yes_no demo_collab "Choice_init None"]
    rank_text_KeyError [of "\<lparr>layers = [RawText ''yes''], trans_reg = [''choices'' \<mapsto> no_intent_key]\<rparr>"
      no_intent_key demo_collab "Choice_init None"]
  by (simp add: yes_no_def no_intent_key_def)

section \<open>The Text trigger and requests without text\<close>

text \<open>
  C3: \<open>Text.rank\<close> returns \<open>None\<close> when the request has no raw-text layer; when it
  has one, it returns the \<open>best_match\<close> score of the text of the (first) raw-text layer
  against the strings of the intent of the trigger, resolved for the request.
\<close>

theorem Text_rank_score:
  "((\<forall>x. RawText x \<notin> set (layers r)) \<longrightarrow> Text_rank env r i = Inr None)
   \<and> (layers r = pre @ RawText txt # post \<and> (\<forall>x. RawText x \<notin> set pre)
        \<longrightarrow> Text_rank env r i = Inr (Some (best_match env txt (intent_strings env i r))))"
proof (intro conjI impI)
  assume "\<forall>x. RawText x \<notin> set (layers r)"
  then show "Text_rank env r i = Inr None"
    by (simp add: Text_rank_def has_layer_RawText)
next
  assume a: "layers r = pre @ RawText txt # post \<and> (\<forall>x. RawText x \<notin> set pre)"
  then have "get_layer r RawText_cls = Inr txt"
    by (intro get_layer_first [where pre = pre and post = post and l = "RawText txt"])
       (auto simp: RawText_cls_None)
  moreover from a have "has_layer r RawText_cls"
    by (auto simp: has_layer_RawText)
  ultimately show "Text_rank env r i = Inr (Some (best_match env txt (intent_strings env i r)))"
    by (simp add: Text_rank_def)
qed

theorem Text_rank_score_witness:
  "Text_rank demo_collab \<lparr>layers = [QuickReply ''no''], trans_reg = Map.empty\<rparr> ''HELLO'' = Inr None
   \<and> Text_rank demo_collab \<lparr>layers = [QuickReply ''no'', RawText ''hi'', RawText ''zz''],
        trans_reg = Map.empty\<rparr> ''HELLO'' = Inr (Some 1)"
  using Text_rank_score [of "\<lparr>layers = [QuickReply ''no''], trans_reg = Map.empty\<rparr>" demo_collab
      "''HELLO''" "[]" "''''" "[]"]
    Text_rank_score [of "\<lparr>layers = [QuickReply ''no'', RawText ''hi'', RawText ''zz''],
        trans_reg = Map.empty\<rparr>" demo_collab "''HELLO''" "[QuickReply ''no'']" "''hi''" "[RawText ''zz'']"]
  by (simp add: demo_collab_def)

text \<open>
  C7: on a request with neither a quick-reply layer nor a raw-text layer, both
  \<open>Text.rank\<close> and \<open>Choice.rank\<close> return \<open>None\<close>.
\<close>

theorem no_token_no_opinion:
  assumes "\<forall>x. RawText x \<notin> set (layers r)" and "\<forall>q. QuickReply q \<notin> set (layers r)"
  shows "Text_rank env r i = Inr None \<and> Choice_rank env r t = (Inr None, t)"
  using assms
  by (simp add: Text_rank_def Choice_rank_def has_layer_RawText has_layer_QuickReply
      split: option.splits)

theorem no_token_no_opinion_witness:
  "Text_rank demo_collab \<lparr>layers = [Postback ''p''], trans_reg = [''choices'' \<mapsto> yes_no]\<rparr> ''HELLO''
     = Inr None
   \<and> Choice_rank demo_collab \<lparr>layers = [Postback ''p''], trans_reg = [''choices'' \<mapsto> yes_no]\<rparr>
       (Choice_init None) = (Inr None, Choice_init None)"
  using no_token_no_opinion [of "\<lparr>layers = [Postback ''p''], trans_reg = [''choices'' \<mapsto> yes_no]\<rparr>"
      demo_collab "''HELLO''" "Choice_init None"]
  by simp

text \<open>
  C6: when the pending-choices mapping read from the transition register is absent or
  empty, \<open>Choice.rank\<close> returns \<open>None\<close> (no opinion), which is not the score 0.0, and
  leaves the trigger as it was.
\<close>

theorem Choice_rank_no_choices:
  "get_trans_reg r ''choices'' = None \<or> get_trans_reg r ''choices'' = Some []
   \<Longrightarrow> Choice_rank env r t = (Inr None, t) \<and> fst (Choice_rank env r t) \<noteq> Inr (Some 0)"
  by (auto simp: Choice_rank_def)

theorem Choice_rank_no_choices_witness:
  "Choice_rank demo_collab \<lparr>layers = [RawText ''yes''], trans_reg = Map.empty\<rparr> (Choice_init None)
     = (Inr None, Choice_init None)
   \<and> Choice_rank demo_collab \<lparr>layers = [RawText ''yes''], trans_reg = [''choices'' \<mapsto> []]\<rparr>
        (Choice_init None) = (Inr None, Choice_init None)"
  using Choice_rank_no_choices [of "\<lparr>layers = [RawText ''yes''], trans_reg = Map.empty\<rparr>"
      demo_collab "Choice_init None"]
    Choice_rank_no_choices [of "\<lparr>layers = [RawText ''yes''], trans_reg = [''choices'' \<mapsto> []]\<rparr>"
      demo_collab "Choice_init None"]
  by (simp add: get_trans_reg_def)

section \<open>Accepting and sending a stack\<close>

text \<open>
  C4: \<open>accept\<close> tries the registered patterns in the order of registration.  At the
  first pattern that matches it stores the name of that pattern in the annotation of the
  stack and returns \<open>True\<close>; when no registered pattern matches it returns \<open>False\<close>.
\<close>

theorem accept_first_match:
  "(PATTERNS pf = pre @ (n, p) # post \<and> (\<forall>(n', p')\<in>set pre. \<not> m st p') \<and> m st p
      \<longrightarrow> accept pf m st = (True, st\<lparr>annotation := Some n\<rparr>))
   \<and> ((\<forall>(n', p')\<in>set (PATTERNS pf). \<not> m st p') \<longrightarrow> \<not> fst (accept pf m st))"
  by (simp add: accept_def accept_loop_first accept_loop_none)

theorem accept_first_match_witness:
  "accept two_patterns text_shape \<lparr>stack_layers = [RawText ''a'', RawText ''b'', QuickRepliesList []],
       annotation = None\<rparr>
     = (True, \<lparr>stack_layers = [RawText ''a'', RawText ''b'', QuickRepliesList []],
               annotation = Some ''text''\<rparr>)
   \<and> \<not> fst (accept Facebook text_shape \<lparr>stack_layers = [Postback ''p''], annotation = None\<rparr>)"
  using accept_first_match [of two_patterns "[(''postback'', ''Postback'')]" "''text''"
      "''(Text|RawText)+ QuickRepliesList?''" "[(''any'', ''(Text|RawText)+ QuickRepliesList?'')]"
      text_shape "\<lparr>stack_layers = [RawText ''a'', RawText ''b'', QuickRepliesList []],
       annotation = None\<rparr>"]
    accept_first_match [of Facebook "[]" "''text''" "''''" "[]" text_shape
      "\<lparr>stack_layers = [Postback ''p''], annotation = None\<rparr>"]
  by (simp add: two_patterns_def Facebook_def text_shape_def)

text \<open>
  C10: when \<open>accept\<close> returns \<open>False\<close>, the stack, and so its annotation, is as it was
  before the call.
\<close>

theorem accept_False_unchanged:
  "\<not> fst (accept pf m st) \<Longrightarrow> snd (accept pf m st) = st"
  using accept_loop_False [of m "PATTERNS pf" st "snd (accept pf m st)"]
  by (cases "accept pf m st") (simp add: accept_def)

theorem accept_False_unchanged_witness:
  "\<not> fst (accept Facebook text_shape \<lparr>stack_layers = [Postback ''p''], annotation = Some ''old''\<rparr>)
   \<and> snd (accept Facebook text_shape \<lparr>stack_layers = [Postback ''p''], annotation = Some ''old''\<rparr>)
       = \<lparr>stack_layers = [Postback ''p''], annotation = Some ''old''\<rparr>"
proof -
  have h: "\<not> fst (accept Facebook text_shape
             \<lparr>stack_layers = [Postback ''p''], annotation = Some ''old''\<rparr>)"
    by (simp add: accept_def Facebook_def text_shape_def)
  show ?thesis
    using h accept_False_unchanged [OF h] by simp
qed

text \<open>
  C5: on the Facebook platform, \<open>send\<close> raises \<open>UnacceptableStack\<close>, and calls no
  handler, for a stack whose annotation is not a registered pattern name and which no
  registered pattern matches.  A stack whose annotation is a registered name is passed,
  unchanged, to the handler \<open>_send_\<close> followed by that annotation; a stack whose annotation
  is not registered but which some registered pattern matches is annotated by \<open>accept\<close>
  and passed to the handler of its new annotation.
\<close>

theorem Facebook_send_dispatch:
  "(annotation st \<notin> Some ` fst ` set (PATTERNS Facebook)
      \<and> (\<forall>(n, p)\<in>set (PATTERNS Facebook). \<not> m st p)
      \<longrightarrow> send Facebook m st = Inl UnacceptableStack)
   \<and> (annotation st \<in> Some ` fst ` set (PATTERNS Facebook)
      \<longrightarrow> (\<exists>a. annotation st = Some a \<and> send Facebook m st = Inr (''_send_'' @ a, st)))
   \<and> (annotation st \<notin> Some ` fst ` set (PATTERNS Facebook)
      \<and> (\<exists>(n, p)\<in>set (PATTERNS Facebook). m st p)
      \<longrightarrow> (\<exists>a st'. accept Facebook m st = (True, st') \<and> annotation st' = Some a
              \<and> send Facebook m st = Inr (''_send_'' @ a, st')))"
  by (cases "annotation st")
     (auto simp: send_def accept_def in_PATTERNS_def getattr_def Facebook_def)

theorem Facebook_send_dispatch_witness:
  "send Facebook text_shape \<lparr>stack_layers = [Postback ''p''], annotation = None\<rparr>
     = Inl UnacceptableStack
   \<and> send Facebook text_shape \<lparr>stack_layers = [Postback ''p''], annotation = Some ''text''\<rparr>
     = Inr (''_send_text'', \<lparr>stack_layers = [Postback ''p''], annotation = Some ''text''\<rparr>)
   \<and> send Facebook text_shape \<lparr>stack_layers = [Text ''hello''], annotation = Some ''old''\<rparr>
     = Inr (''_send_text'', \<lparr>stack_layers = [Text ''hello''], annotation = Some ''text''\<rparr>)"
  using Facebook_send_dispatch [of "\<lparr>stack_layers = [Postback ''p''], annotation = None\<rparr>" text_shape]
    Facebook_send_dispatch [of "\<lparr>stack_layers = [Postback ''p''], annotation = Some ''text''\<rparr>" text_shape]
    Facebook_send_dispatch [of "\<lparr>stack_layers = [Text ''hello''], annotation = Some ''old''\<rparr>" text_shape]
  by (simp add: Facebook_def text_shape_def accept_def)

end
